theory Spec2Isabelle
  imports Complex_Main
begin

section \<open>The energy ledger of blockchain\_energy.py\<close>

text \<open>
  The development embeds \<^verbatim>\<open>src/blockchain_energy.py\<close>: the classes \<^verbatim>\<open>Block\<close>,
  \<^verbatim>\<open>SmartContract\<close> and \<^verbatim>\<open>EnergyBlockchain\<close>. Mutation of an object is explicit state
  passing; a method takes the object and returns the updated one.

  Conventions of the embedding.
  \<^item> A transaction is a Python \<^verbatim>\<open>dict\<close> with string keys, hence a map from keys to
    values; \<^verbatim>\<open>d.get(k)\<close> is the lookup, \<^verbatim>\<open>None\<close> being \<open>None\<close>.
  \<^item> The values stored in a transaction are strings, integers and floats. A float is
    represented by the rational number it denotes and float arithmetic is exact:
    rounding is not modelled.
  \<^item> \<^verbatim>\<open>datetime.now().isoformat()\<close> is an input: every operation that reads the clock
    takes the string it reads as an argument.
  \<^item> \<^verbatim>\<open>print\<close> is not modelled.
  \<^item> The library functions \<^verbatim>\<open>json.dumps(..., sort_keys=True)\<close> and
    \<^verbatim>\<open>hashlib.sha256(...).hexdigest()\<close> are not code of the repository. Their composition
    is a deterministic function of the five entries of the dictionary that
    \<^verbatim>\<open>calculate_hash\<close> builds; that function is a parameter \<open>dg\<close> of the embedding.
\<close>

subsection \<open>Values, transactions and errors\<close>

datatype pyval = PStr string | PInt int | PFloat rat

type_synonym transaction = "string \<rightharpoonup> pyval"

datatype error = IndexError | TypeError

text \<open>
  The sequence of transactions that a block holds. The repository always passes a list;
  the attribute is assignable and Python does not enforce its annotation, so it can
  also hold a tuple. Iteration and \<^verbatim>\<open>json.dumps\<close> read a list and a tuple alike, through
  their elements, while \<^verbatim>\<open>==\<close> tells a list from a tuple.
\<close>

datatype pyseq = PyList "transaction list" | PyTuple "transaction list"

fun elems :: "pyseq \<Rightarrow> transaction list" where
  "elems (PyList xs) = xs"
| "elems (PyTuple xs) = xs"


text \<open>
  The operand of \<^verbatim>\<open>balance += v\<close> on a float \<^verbatim>\<open>balance\<close>: a number is converted, a string
  raises \<^verbatim>\<open>TypeError\<close>.
\<close>

fun num_of :: "pyval \<Rightarrow> error + rat" where
  "num_of (PStr s) = Inl TypeError"
| "num_of (PInt i) = Inr (of_int i)"
| "num_of (PFloat r) = Inr r"

subsection \<open>Block\<close>

record Block =
  index :: int
  timestamp :: string
  transactions :: pyseq
  previous_hash :: string
  nonce :: int
  hash :: string

text \<open>
  The digest \<^verbatim>\<open>sha256(json.dumps({'index': .., 'timestamp': .., 'transactions': ..,
  'previous_hash': .., 'nonce': ..}, sort_keys=True).encode()).hexdigest()\<close> as a function
  of the five entries. \<^verbatim>\<open>json.dumps\<close> writes a list and a tuple as the same JSON array, so
  the digest reads the sequence of transactions through its elements.
\<close>

type_synonym digest = "int \<Rightarrow> string \<Rightarrow> transaction list \<Rightarrow> string \<Rightarrow> int \<Rightarrow> string"

definition calculate_hash :: "digest \<Rightarrow> Block \<Rightarrow> string" where
  "calculate_hash dg b =
     dg (index b) (timestamp b) (elems (transactions b)) (previous_hash b) (nonce b)"

text \<open>\<^verbatim>\<open>Block.__init__\<close>: the nonce starts at 0 and the hash is computed at once.\<close>

definition new_Block :: "digest \<Rightarrow> int \<Rightarrow> string \<Rightarrow> pyseq \<Rightarrow> string \<Rightarrow> Block" where
  "new_Block dg i ts txs ph =
     \<lparr>index = i, timestamp = ts, transactions = txs, previous_hash = ph, nonce = 0,
      hash = dg i ts (elems txs) ph 0\<rparr>"

text \<open>
  Python's slice \<^verbatim>\<open>s[:k]\<close>: for a negative \<open>k\<close> it drops the last \<open>-k\<close> characters.
  \<^verbatim>\<open>'0' * k\<close> is empty for a negative \<open>k\<close>.
\<close>

definition py_prefix :: "int \<Rightarrow> string \<Rightarrow> string" where
  "py_prefix k s = (if 0 \<le> k then take (nat k) s else take (length s - nat (- k)) s)"

definition target :: "int \<Rightarrow> string" where
  "target difficulty = replicate (nat difficulty) (CHR ''0'')"

text \<open>The body of the loop of \<^verbatim>\<open>mine_block\<close>: increment the nonce, recompute the hash.\<close>

definition mine_step :: "digest \<Rightarrow> Block \<Rightarrow> Block" where
  "mine_step dg b =
     b\<lparr>nonce := nonce b + 1, hash := calculate_hash dg (b\<lparr>nonce := nonce b + 1\<rparr>)\<rparr>"

text \<open>
  \<^verbatim>\<open>mine_block\<close>: the loop has no bound, so the result is optional; \<open>None\<close> is the loop
  that never ends.
\<close>

partial_function (option) mine_block :: "digest \<Rightarrow> int \<Rightarrow> Block \<Rightarrow> Block option" where
  "mine_block dg difficulty b =
     (if py_prefix difficulty (hash b) \<noteq> target difficulty
      then mine_block dg difficulty (mine_step dg b)
      else Some b)"

declare mine_block.simps [code]

subsection \<open>SmartContract\<close>

record SmartContract =
  contract_id :: string
  producer :: string
  consumer :: string
  energy_kwh :: rat
  price :: rat
  status :: string
  created :: string

text \<open>\<^verbatim>\<open>SmartContract.__init__\<close>; the field \<open>created\<close> is the attribute \<^verbatim>\<open>timestamp\<close>.\<close>

definition new_SmartContract ::
  "string \<Rightarrow> string \<Rightarrow> string \<Rightarrow> rat \<Rightarrow> rat \<Rightarrow> string \<Rightarrow> SmartContract" where
  "new_SmartContract cid prd cns e p now =
     \<lparr>contract_id = cid, producer = prd, consumer = cns, energy_kwh = e, price = p,
      status = ''pending'', created = now\<rparr>"

text \<open>\<^verbatim>\<open>execute\<close> returns the transaction and the contract with its new status.\<close>

definition execute :: "SmartContract \<Rightarrow> transaction \<times> SmartContract" where
  "execute c =
     ([''contract_id'' \<mapsto> PStr (contract_id c),
       ''from'' \<mapsto> PStr (producer c),
       ''to'' \<mapsto> PStr (consumer c),
       ''energy_kwh'' \<mapsto> PFloat (energy_kwh c),
       ''price_per_kwh'' \<mapsto> PFloat (price c),
       ''total_cost'' \<mapsto> PFloat (energy_kwh c * price c),
       ''timestamp'' \<mapsto> PStr (created c),
       ''type'' \<mapsto> PStr ''energy_trade''],
      c\<lparr>status := ''completed''\<rparr>)"

subsection \<open>EnergyBlockchain\<close>

record EnergyBlockchain =
  chain :: "Block list"
  pending_transactions :: "transaction list"
  difficulty :: int
  mining_reward :: rat

text \<open>\<^verbatim>\<open>create_genesis_block\<close>: the genesis block is mined, then appended.\<close>

definition create_genesis_block ::
  "digest \<Rightarrow> string \<Rightarrow> EnergyBlockchain \<Rightarrow> EnergyBlockchain option" where
  "create_genesis_block dg now s =
     (case mine_block dg (difficulty s) (new_Block dg 0 now (PyList []) ''0'') of
        None \<Rightarrow> None
      | Some g \<Rightarrow> Some (s\<lparr>chain := chain s @ [g]\<rparr>))"

text \<open>\<^verbatim>\<open>EnergyBlockchain.__init__\<close>.\<close>

definition new_EnergyBlockchain :: "digest \<Rightarrow> int \<Rightarrow> string \<Rightarrow> EnergyBlockchain option" where
  "new_EnergyBlockchain dg d now =
     create_genesis_block dg now
       \<lparr>chain = [], pending_transactions = [], difficulty = d, mining_reward = 1\<rparr>"

text \<open>\<^verbatim>\<open>get_latest_block\<close>: \<^verbatim>\<open>self.chain[-1]\<close> raises on an empty chain.\<close>

definition get_latest_block :: "EnergyBlockchain \<Rightarrow> error + Block" where
  "get_latest_block s = (if chain s = [] then Inl IndexError else Inr (last (chain s)))"

definition add_transaction :: "transaction \<Rightarrow> EnergyBlockchain \<Rightarrow> EnergyBlockchain" where
  "add_transaction tx s = s\<lparr>pending_transactions := pending_transactions s @ [tx]\<rparr>"

text \<open>The dictionary \<^verbatim>\<open>reward_transaction\<close> built by \<^verbatim>\<open>mine_pending_transactions\<close>.\<close>

definition reward_transaction :: "string \<Rightarrow> rat \<Rightarrow> transaction" where
  "reward_transaction miner_address reward =
     [''from'' \<mapsto> PStr ''network'',
      ''to'' \<mapsto> PStr miner_address,
      ''energy_kwh'' \<mapsto> PInt 0,
      ''price_per_kwh'' \<mapsto> PInt 0,
      ''total_cost'' \<mapsto> PFloat reward,
      ''type'' \<mapsto> PStr ''mining_reward'']"

text \<open>
  What a call returns to its caller: \<^verbatim>\<open>None\<close> or a block.
\<close>

datatype retval = RNone | RBlock Block

text \<open>
  \<^verbatim>\<open>mine_pending_transactions\<close>. The outer option is the unbounded mining loop, the sum
  is the exception of \<^verbatim>\<open>get_latest_block\<close>; the result pairs the new state with the
  value returned. Both exits of the source return \<^verbatim>\<open>None\<close>: the bare \<^verbatim>\<open>return\<close> of the
  empty pool and the end of the body. The new block takes the list object of the pool,
  and the pool is then bound to a fresh list, so no later \<^verbatim>\<open>append\<close> reaches the block:
  the block holds the value of the pool at the time of the call.
\<close>

definition mine_pending_transactions ::
  "digest \<Rightarrow> string \<Rightarrow> string \<Rightarrow> EnergyBlockchain \<Rightarrow> (error + EnergyBlockchain \<times> retval) option" where
  "mine_pending_transactions dg now miner_address s =
     (if pending_transactions s = [] then Some (Inr (s, RNone))
      else
        (case get_latest_block s of
           Inl e \<Rightarrow> Some (Inl e)
         | Inr latest \<Rightarrow>
             (case mine_block dg (difficulty s)
                     (new_Block dg (int (length (chain s))) now
                        (PyList (pending_transactions s)) (hash latest)) of
                None \<Rightarrow> None
              | Some new_block \<Rightarrow>
                  Some (Inr (s\<lparr>chain := chain s @ [new_block],
                               pending_transactions :=
                                 [reward_transaction miner_address (mining_reward s)]\<rparr>,
                             RNone)))))"

text \<open>
  \<^verbatim>\<open>is_chain_valid\<close>: the loop over \<^verbatim>\<open>range(1, len(self.chain))\<close> with its two early
  returns.
\<close>

fun chain_loop :: "digest \<Rightarrow> Block list \<Rightarrow> nat list \<Rightarrow> bool" where
  "chain_loop dg c [] = True"
| "chain_loop dg c (i # rest) =
     (if hash (c ! i) \<noteq> calculate_hash dg (c ! i) then False
      else if previous_hash (c ! i) \<noteq> hash (c ! (i - 1)) then False
      else chain_loop dg c rest)"

definition is_chain_valid :: "digest \<Rightarrow> EnergyBlockchain \<Rightarrow> bool" where
  "is_chain_valid dg s = chain_loop dg (chain s) [1..<length (chain s)]"





subsection \<open>Reachable ledger states\<close>

text \<open>
  The states of a ledger after construction and any sequence of \<^verbatim>\<open>add_transaction\<close>
  (submit) and \<^verbatim>\<open>mine_pending_transactions\<close> (seal) calls that returned.
\<close>

inductive reachable :: "digest \<Rightarrow> EnergyBlockchain \<Rightarrow> bool" for dg :: digest where
  construct: "new_EnergyBlockchain dg d now = Some s \<Longrightarrow> reachable dg s"
| submit: "reachable dg s \<Longrightarrow> reachable dg (add_transaction tx s)"
| seal: "reachable dg s \<Longrightarrow> mine_pending_transactions dg now miner s = Some (Inr (s', r))
         \<Longrightarrow> reachable dg s'"

subsection \<open>A sample digest\<close>

text \<open>
  A small executable digest, used wherever a statement is instantiated at concrete
  values. Its first character depends on the index, on the nonce and on the sizes of the
  other three entries, and runs through the sixteen hex digits as the nonce grows.
\<close>

definition hex_digit :: "nat \<Rightarrow> char" where
  "hex_digit k = ''0123456789abcdef'' ! (k mod 16)"

definition sample_digest :: digest where
  "sample_digest i ts txs ph n =
     [hex_digit (nat \<bar>i\<bar> + length ts + length txs + length ph + nat \<bar>n\<bar>),
      hex_digit (length ts + length txs)]"

text \<open>
  Sample values: a trade produced by a contract, the ledger constructed at difficulty 1
  under the sample digest, and the ledger after submitting the trade and sealing.
\<close>

definition sample_trade :: transaction where
  "sample_trade =
     fst (execute (new_SmartContract ''SC1'' ''A'' ''B'' 10 0.5 ''2024-01-01T00:00:02''))"

definition sample_genesis :: Block where
  "sample_genesis =
     \<lparr>index = 0, timestamp = ''2024-01-01T00:00:00'', transactions = PyList [], previous_hash = ''0'',
      nonce = 12, hash = ''03''\<rparr>"

definition sample_block :: Block where
  "sample_block =
     \<lparr>index = 1, timestamp = ''2024-01-01T00:00:05'', transactions = PyList [sample_trade],
      previous_hash = ''03'', nonce = 9, hash = ''04''\<rparr>"

definition sample_fresh :: EnergyBlockchain where
  "sample_fresh =
     \<lparr>chain = [sample_genesis], pending_transactions = [], difficulty = 1, mining_reward = 1\<rparr>"

definition sample_sealed :: EnergyBlockchain where
  "sample_sealed =
     \<lparr>chain = [sample_genesis, sample_block],
      pending_transactions = [reward_transaction ''M'' 1], difficulty = 1, mining_reward = 1\<rparr>"

subsection \<open>The linkage invariant\<close>

text \<open>
  The chain is not empty, its first block is a genesis block, and every later block
  stores the hash of its predecessor and the digest of its own entries.
\<close>

definition linked :: "digest \<Rightarrow> Block list \<Rightarrow> bool" where
  "linked dg c \<longleftrightarrow>
     c \<noteq> [] \<and> index (c ! 0) = 0 \<and> previous_hash (c ! 0) = ''0'' \<and>
     (\<forall>i. 1 \<le> i \<and> i < length c \<longrightarrow>
        previous_hash (c ! i) = hash (c ! (i - 1)) \<and> hash (c ! i) = calculate_hash dg (c ! i))"

subsection \<open>Tampering\<close>



subsection \<open>Solvable proof of work\<close>



subsection \<open>Records of a ledger and their cost\<close>

text \<open>
  The total cost of a record is the product of its energy and its unit price (all three
  present and numeric).
\<close>

definition cost_is_product :: "transaction \<Rightarrow> bool" where
  "cost_is_product tx =
     (case (tx ''total_cost'', tx ''energy_kwh'', tx ''price_per_kwh'') of
        (Some c, Some e, Some p) \<Rightarrow>
          (case (num_of c, num_of e, num_of p) of
             (Inr cv, Inr ev, Inr pv) \<Rightarrow> cv = ev * pv
           | _ \<Rightarrow> False)
      | _ \<Rightarrow> False)"

text \<open>The shape of the record that \<^verbatim>\<open>mine_pending_transactions\<close> synthesizes.\<close>

definition is_reward :: "transaction \<Rightarrow> bool" where
  "is_reward tx \<longleftrightarrow>
     tx ''type'' = Some (PStr ''mining_reward'') \<and> tx ''from'' = Some (PStr ''network'') \<and>
     tx ''energy_kwh'' = Some (PInt 0) \<and> tx ''price_per_kwh'' = Some (PInt 0) \<and>
     tx ''total_cost'' = Some (PFloat 1)"

text \<open>The transactions stored in the blocks of the chain, and all records of a state.\<close>

definition chained :: "EnergyBlockchain \<Rightarrow> transaction list" where
  "chained s = concat (map (\<lambda>b. elems (transactions b)) (chain s))"

definition records :: "EnergyBlockchain \<Rightarrow> transaction list" where
  "records s = pending_transactions s @ chained s"

text \<open>
  The states reached when every submitted transaction is the result of
  \<^verbatim>\<open>SmartContract.execute\<close>.
\<close>

inductive contract_fed :: "digest \<Rightarrow> EnergyBlockchain \<Rightarrow> bool" for dg :: digest where
  fed_construct: "new_EnergyBlockchain dg d now = Some s \<Longrightarrow> contract_fed dg s"
| fed_submit: "contract_fed dg s \<Longrightarrow> contract_fed dg (add_transaction (fst (execute c)) s)"
| fed_seal: "contract_fed dg s \<Longrightarrow>
     mine_pending_transactions dg now miner s = Some (Inr (s', r)) \<Longrightarrow> contract_fed dg s'"

subsection \<open>Balances\<close>




text \<open>
  Further sample values: a record whose cost is not the product of its energy and price,
  a record with no sender, and the ledger after submitting the latter and sealing.
\<close>

definition sample_unpriced :: transaction where
  "sample_unpriced =
     [''from'' \<mapsto> PStr ''A'', ''to'' \<mapsto> PStr ''B'', ''energy_kwh'' \<mapsto> PFloat 1,
      ''price_per_kwh'' \<mapsto> PFloat 1, ''total_cost'' \<mapsto> PFloat 7]"



section \<open>Properties\<close>

subsection \<open>The mining loop\<close>

lemma mine_step_fields:
  "index (mine_step dg b) = index b"
  "timestamp (mine_step dg b) = timestamp b"
  "transactions (mine_step dg b) = transactions b"
  "previous_hash (mine_step dg b) = previous_hash b"
  "nonce (mine_step dg b) = nonce b + 1"
  "hash (mine_step dg b) = calculate_hash dg (mine_step dg b)"
  by (simp_all add: mine_step_def calculate_hash_def)

lemma new_Block_hash:
  "hash (new_Block dg i ts txs ph) = calculate_hash dg (new_Block dg i ts txs ph)"
  by (simp add: new_Block_def calculate_hash_def)


lemma mine_block_fields:
  "mine_block dg d b = Some b' \<Longrightarrow>
     index b' = index b \<and> timestamp b' = timestamp b \<and> transactions b' = transactions b \<and>
     previous_hash b' = previous_hash b \<and> nonce b \<le> nonce b'"
  by (rule mine_block.raw_induct[where P = "\<lambda>dg d b b'.
        index b' = index b \<and> timestamp b' = timestamp b \<and> transactions b' = transactions b \<and>
        previous_hash b' = previous_hash b \<and> nonce b \<le> nonce b'"])
     (fastforce simp: mine_step_fields split: if_splits)+

lemma mine_block_hash:
  "mine_block dg d b = Some b' \<Longrightarrow> hash b = calculate_hash dg b \<Longrightarrow>
     hash b' = calculate_hash dg b'"
  by (rule mine_block.raw_induct[where P = "\<lambda>dg d b b'.
        hash b = calculate_hash dg b \<longrightarrow> hash b' = calculate_hash dg b'", rule_format])
     (auto simp: mine_step_fields split: if_splits)


subsection \<open>Validation and the invariant\<close>

lemma chain_loop_iff:
  "chain_loop dg c js \<longleftrightarrow>
     (\<forall>i\<in>set js. hash (c ! i) = calculate_hash dg (c ! i) \<and>
        previous_hash (c ! i) = hash (c ! (i - 1)))"
  by (induction js) auto

lemma is_chain_valid_iff:
  "is_chain_valid dg s \<longleftrightarrow>
     (\<forall>i. 1 \<le> i \<and> i < length (chain s) \<longrightarrow>
        hash (chain s ! i) = calculate_hash dg (chain s ! i) \<and>
        previous_hash (chain s ! i) = hash (chain s ! (i - 1)))"
  by (auto simp: is_chain_valid_def chain_loop_iff)

lemma linked_valid: "linked dg (chain s) \<Longrightarrow> is_chain_valid dg s"
  by (simp add: is_chain_valid_iff linked_def)

lemma linked_genesis:
  assumes "mine_block dg d (new_Block dg 0 now (PyList []) ''0'') = Some g"
  shows "linked dg [g]"
  using mine_block_fields[OF assms] by (simp add: linked_def new_Block_def)

lemma linked_append:
  assumes "linked dg c"
    and "mine_block dg d (new_Block dg i now txs (hash (last c))) = Some nb"
  shows "linked dg (c @ [nb])"
proof -
  from assms(1) have ne: "c \<noteq> []" by (simp add: linked_def)
  have prev: "previous_hash nb = hash (last c)"
    using mine_block_fields[OF assms(2)] by (simp add: new_Block_def)
  have h: "hash nb = calculate_hash dg nb"
    using mine_block_hash[OF assms(2)] by (simp add: new_Block_hash)
  have "previous_hash ((c @ [nb]) ! j) = hash ((c @ [nb]) ! (j - 1)) \<and>
        hash ((c @ [nb]) ! j) = calculate_hash dg ((c @ [nb]) ! j)"
    if "1 \<le> j" "j < length (c @ [nb])" for j
  proof (cases "j < length c")
    case True
    then have "j - 1 < length c" by simp
    with True that assms(1) show ?thesis by (simp add: linked_def nth_append)
  next
    case False
    with that have "j = length c" by simp
    with ne prev h show ?thesis by (simp add: nth_append last_conv_nth)
  qed
  with assms(1) ne show ?thesis by (simp add: linked_def nth_append)
qed

lemma seal_cases:
  assumes "mine_pending_transactions dg now miner s = Some (Inr (s', r))"
    and "chain s \<noteq> []"
  obtains (noop) "pending_transactions s = []" "s' = s" "r = RNone"
  | (mined) nb where "pending_transactions s \<noteq> []"
      "mine_block dg (difficulty s)
         (new_Block dg (int (length (chain s))) now (PyList (pending_transactions s))
            (hash (last (chain s)))) = Some nb"
      "s' = s\<lparr>chain := chain s @ [nb],
              pending_transactions := [reward_transaction miner (mining_reward s)]\<rparr>"
      "r = RNone"
  using assms
  by (auto simp: mine_pending_transactions_def get_latest_block_def
      split: if_splits option.splits)

lemma reachable_linked: "reachable dg s \<Longrightarrow> linked dg (chain s)"
proof (induction rule: reachable.induct)
  case (construct d now s)
  then show ?case
    by (auto simp: new_EnergyBlockchain_def create_genesis_block_def linked_genesis
        split: option.splits)
next
  case (submit s tx)
  then show ?case by (simp add: add_transaction_def)
next
  case (seal s now miner s' r)
  from seal.IH have ne: "chain s \<noteq> []" by (simp add: linked_def)
  from seal.hyps(2) ne show ?case
  proof (cases rule: seal_cases)
    case noop
    with seal.IH show ?thesis by simp
  next
    case (mined nb)
    from linked_append[OF seal.IH mined(2)] mined(3) show ?thesis by simp
  qed
qed

subsection \<open>The sample run\<close>

lemmas sample_eval =
  new_Block_def mine_step_def calculate_hash_def py_prefix_def target_def
  sample_digest_def hex_digit_def

lemma sample_fresh_constructed:
  "new_EnergyBlockchain sample_digest 1 ''2024-01-01T00:00:00'' = Some sample_fresh"
  by (simp add: new_EnergyBlockchain_def create_genesis_block_def mine_block.simps sample_eval
      sample_fresh_def sample_genesis_def)

lemma sample_sealed_mined:
  "mine_pending_transactions sample_digest ''2024-01-01T00:00:05'' ''M''
     (add_transaction sample_trade sample_fresh) = Some (Inr (sample_sealed, RNone))"
  by (simp add: mine_pending_transactions_def add_transaction_def get_latest_block_def
      mine_block.simps sample_eval sample_fresh_def sample_genesis_def sample_sealed_def
      sample_block_def)

lemma reachable_sample_fresh: "reachable sample_digest sample_fresh"
  by (rule reachable.construct[OF sample_fresh_constructed])

lemma reachable_sample_sealed: "reachable sample_digest sample_sealed"
  by (rule reachable.seal[OF reachable.submit[OF reachable_sample_fresh] sample_sealed_mined])

subsection \<open>Sealing an empty pool\<close>

text \<open>
  Claim C7. For every ledger state whose pending pool is empty (reachable or not) and
  every miner address and clock reading, \<^verbatim>\<open>mine_pending_transactions\<close> returns, raises no
  error, and leaves the whole state unchanged: the same chain and the same, empty,
  pending pool.
\<close>

theorem seal_empty_pool_noop:
  "pending_transactions s = [] \<Longrightarrow>
     mine_pending_transactions dg now miner s = Some (Inr (s, RNone))"
  by (simp add: mine_pending_transactions_def)

theorem seal_empty_pool_noop_witness:
  "reachable sample_digest sample_fresh \<and> pending_transactions sample_fresh = [] \<and>
   mine_pending_transactions sample_digest ''2024-01-01T00:00:09'' ''M'' sample_fresh =
     Some (Inr (sample_fresh, RNone))"
proof -
  have e: "pending_transactions sample_fresh = []" by (simp add: sample_fresh_def)
  from seal_empty_pool_noop[OF e] e reachable_sample_fresh show ?thesis by simp
qed

subsection \<open>The chain invariant\<close>

text \<open>
  Claim C2. In every ledger state reachable from construction by submit and seal
  operations the chain is not empty, its first block has index 0 and previous hash
  \<^verbatim>\<open>"0"\<close>, every block at an index \<open>i \<ge> 1\<close> stores the hash of block \<open>i - 1\<close> as its
  previous hash and the digest of its own current entries as its hash, and
  \<^verbatim>\<open>is_chain_valid\<close> returns \<open>True\<close>.
\<close>

theorem reachable_chain_invariant:
  "reachable dg s \<Longrightarrow>
     chain s \<noteq> [] \<and> index (chain s ! 0) = 0 \<and> previous_hash (chain s ! 0) = ''0'' \<and>
     (\<forall>i. 1 \<le> i \<and> i < length (chain s) \<longrightarrow>
        previous_hash (chain s ! i) = hash (chain s ! (i - 1)) \<and>
        hash (chain s ! i) = calculate_hash dg (chain s ! i)) \<and>
     is_chain_valid dg s"
proof -
  assume "reachable dg s"
  then have l: "linked dg (chain s)" by (rule reachable_linked)
  from l linked_valid[OF l] show ?thesis by (simp add: linked_def)
qed

theorem reachable_chain_invariant_witness:
  "reachable sample_digest sample_sealed \<and>
   chain sample_sealed \<noteq> [] \<and> length (chain sample_sealed) = 2 \<and>
   index (chain sample_sealed ! 0) = 0 \<and> previous_hash (chain sample_sealed ! 0) = ''0'' \<and>
   previous_hash (chain sample_sealed ! 1) = hash (chain sample_sealed ! 0) \<and>
   hash (chain sample_sealed ! 1) = calculate_hash sample_digest (chain sample_sealed ! 1) \<and>
   is_chain_valid sample_digest sample_sealed"
proof -
  have len: "length (chain sample_sealed) = 2" by (simp add: sample_sealed_def)
  from reachable_chain_invariant[OF reachable_sample_sealed] len
  have "previous_hash (chain sample_sealed ! 1) = hash (chain sample_sealed ! (1 - 1)) \<and>
        hash (chain sample_sealed ! 1) = calculate_hash sample_digest (chain sample_sealed ! 1)"
    by simp
  with reachable_chain_invariant[OF reachable_sample_sealed] len reachable_sample_sealed
  show ?thesis by simp
qed

subsection \<open>Proof of work\<close>



subsection \<open>Tamper detection\<close>






subsection \<open>The genesis block is not re-checked\<close>

text \<open>
  Claim C9. \<^verbatim>\<open>is_chain_valid\<close> never compares the stored hash of the genesis block with
  the digest of its entries: in every reachable state, replacing \<^verbatim>\<open>chain[0]\<close> by any
  block with the same stored hash, whatever its other fields, and leaving the later
  blocks untouched, leaves \<^verbatim>\<open>is_chain_valid\<close> returning \<open>True\<close>.
\<close>

theorem genesis_tamper_undetected:
  assumes "reachable dg s" and "hash g' = hash (chain s ! 0)"
  shows "is_chain_valid dg (s\<lparr>chain := (chain s)[0 := g']\<rparr>)"
proof -
  from assms(1) have l: "linked dg (chain s)" by (rule reachable_linked)
  have "hash ((chain s)[0 := g'] ! i) = calculate_hash dg ((chain s)[0 := g'] ! i) \<and>
        previous_hash ((chain s)[0 := g'] ! i) = hash ((chain s)[0 := g'] ! (i - 1))"
    if "1 \<le> i" "i < length (chain s)" for i
  proof -
    from that have cur: "(chain s)[0 := g'] ! i = chain s ! i" by simp
    from that have "0 < length (chain s)" by linarith
    with assms(2) have prev: "hash ((chain s)[0 := g'] ! (i - 1)) = hash (chain s ! (i - 1))"
      by (cases "i - 1 = 0") (simp_all add: nth_list_update)
    from l that cur prev show ?thesis by (simp add: linked_def)
  qed
  then show ?thesis by (simp add: is_chain_valid_iff)
qed

theorem genesis_tamper_undetected_witness:
  "reachable sample_digest sample_sealed \<and>
   hash (sample_genesis\<lparr>timestamp := ''1999-12-31T23:59:59'', transactions := PyList [sample_trade]\<rparr>)
     = hash (chain sample_sealed ! 0) \<and>
   calculate_hash sample_digest
     (sample_genesis\<lparr>timestamp := ''1999-12-31T23:59:59'', transactions := PyList [sample_trade]\<rparr>)
     \<noteq> hash (chain sample_sealed ! 0) \<and>
   is_chain_valid sample_digest
     (sample_sealed\<lparr>chain := (chain sample_sealed)
        [0 := sample_genesis\<lparr>timestamp := ''1999-12-31T23:59:59'',
                              transactions := PyList [sample_trade]\<rparr>]\<rparr>)"
proof -
  have h: "hash (sample_genesis\<lparr>timestamp := ''1999-12-31T23:59:59'', transactions := PyList [sample_trade]\<rparr>)
     = hash (chain sample_sealed ! 0)"
    by (simp add: sample_sealed_def)
  have d: "calculate_hash sample_digest
     (sample_genesis\<lparr>timestamp := ''1999-12-31T23:59:59'', transactions := PyList [sample_trade]\<rparr>)
     \<noteq> hash (chain sample_sealed ! 0)"
    by (simp add: sample_sealed_def sample_genesis_def sample_eval)
  from genesis_tamper_undetected[OF reachable_sample_sealed h] h d reachable_sample_sealed
  show ?thesis by simp
qed

subsection \<open>The scenario at difficulty 1\<close>









subsection \<open>The value returned by sealing\<close>

text \<open>
  Claim C6, as amended. Whenever \<^verbatim>\<open>mine_pending_transactions\<close> is called on a state with
  a non-empty pending pool and returns, the value it returns is \<^verbatim>\<open>None\<close>, not a block;
  the block it mined is appended to the chain and is its last element. (The claim that
  the call returns the appended block fails: the method has no \<^verbatim>\<open>return\<close> of a value.)
\<close>

theorem seal_returns_None:
  assumes "pending_transactions s \<noteq> []"
    and "mine_pending_transactions dg now miner s = Some (Inr (s', r))"
  shows "r = RNone \<and> chain s' = chain s @ [last (chain s')] \<and>
     mine_block dg (difficulty s)
       (new_Block dg (int (length (chain s))) now (PyList (pending_transactions s))
          (hash (last (chain s)))) = Some (last (chain s'))"
proof -
  from assms have ne: "chain s \<noteq> []"
    by (auto simp: mine_pending_transactions_def get_latest_block_def split: if_splits)
  from assms(2) ne show ?thesis
  proof (cases rule: seal_cases)
    case noop
    with assms(1) show ?thesis by simp
  next
    case (mined nb)
    then show ?thesis by simp
  qed
qed

theorem seal_returns_None_witness:
  "pending_transactions (add_transaction sample_trade sample_fresh) \<noteq> [] \<and>
   mine_pending_transactions sample_digest ''2024-01-01T00:00:05'' ''M''
     (add_transaction sample_trade sample_fresh) = Some (Inr (sample_sealed, RNone)) \<and>
   chain sample_sealed = chain (add_transaction sample_trade sample_fresh) @ [sample_block] \<and>
   last (chain sample_sealed) = sample_block"
proof -
  have p: "pending_transactions (add_transaction sample_trade sample_fresh) \<noteq> []"
    by (simp add: add_transaction_def)
  have l: "last (chain sample_sealed) = sample_block" by (simp add: sample_sealed_def)
  from seal_returns_None[OF p sample_sealed_mined] p l sample_sealed_mined
  show ?thesis by simp
qed

theorem seal_return_value_counterexample:
  "pending_transactions (add_transaction sample_trade sample_fresh) \<noteq> [] \<and>
   mine_pending_transactions sample_digest ''2024-01-01T00:00:05'' ''M''
     (add_transaction sample_trade sample_fresh) = Some (Inr (sample_sealed, RNone)) \<and>
   RNone \<noteq> RBlock (last (chain sample_sealed))"
  using sample_sealed_mined by (simp add: add_transaction_def)

subsection \<open>Executing a contract twice\<close>

text \<open>
  Claim C10. For every contract, two calls of \<^verbatim>\<open>execute\<close> in succession return the same
  record: all fields coincide (contract id, from, to, energy, unit price, total cost,
  type, and the timestamp too, which is the creation time of the contract), and after
  either call the status of the contract is \<^verbatim>\<open>'completed'\<close>. The method reads and writes
  the contract only: no ledger is among its arguments or results.
\<close>

theorem execute_twice:
  "fst (execute (snd (execute c))) = fst (execute c) \<and>
   status (snd (execute c)) = ''completed'' \<and>
   status (snd (execute (snd (execute c)))) = ''completed''"
  by (simp add: execute_def)

subsection \<open>The total cost of a record\<close>

lemma contract_fed_reachable: "contract_fed dg s \<Longrightarrow> reachable dg s"
  by (induction rule: contract_fed.induct) (auto intro: reachable.intros)

lemma execute_cost_is_product: "cost_is_product (fst (execute c))"
  by (simp add: cost_is_product_def execute_def)

lemma reward_is_reward: "is_reward (reward_transaction m 1)"
  by (simp add: is_reward_def reward_transaction_def)

lemma reward_not_product: "\<not> cost_is_product (reward_transaction m 1)"
  by (simp add: cost_is_product_def reward_transaction_def)

lemma construct_shape:
  assumes "new_EnergyBlockchain dg d now = Some s"
  shows "pending_transactions s = [] \<and> chained s = [] \<and> mining_reward s = 1 \<and> difficulty s = d"
proof -
  from assms obtain g where g: "mine_block dg d (new_Block dg 0 now (PyList []) ''0'') = Some g"
    and s: "s = \<lparr>chain = [g], pending_transactions = [], difficulty = d, mining_reward = 1\<rparr>"
    by (auto simp: new_EnergyBlockchain_def create_genesis_block_def split: option.splits)
  from mine_block_fields[OF g] have "transactions g = PyList []" by (simp add: new_Block_def)
  with s show ?thesis by (simp add: chained_def)
qed

lemma seal_shape:
  assumes "mine_pending_transactions dg now miner s = Some (Inr (s', r))"
    and "chain s \<noteq> []" and "pending_transactions s \<noteq> []"
  shows "chained s' = chained s @ pending_transactions s \<and>
     pending_transactions s' = [reward_transaction miner (mining_reward s)] \<and>
     mining_reward s' = mining_reward s \<and> difficulty s' = difficulty s"
  using assms(1,2)
proof (cases rule: seal_cases)
  case noop
  with assms(3) show ?thesis by simp
next
  case (mined nb)
  from mine_block_fields[OF mined(2)] have "transactions nb = PyList (pending_transactions s)"
    by (simp add: new_Block_def)
  with mined(3) show ?thesis by (simp add: chained_def)
qed

lemma contract_fed_inv:
  "contract_fed dg s \<Longrightarrow>
     mining_reward s = 1 \<and> (\<forall>tx\<in>set (records s). cost_is_product tx \<or> is_reward tx)"
proof (induction rule: contract_fed.induct)
  case (fed_construct d now s)
  from construct_shape[OF this] show ?case by (simp add: records_def)
next
  case (fed_submit s c)
  then show ?case
    by (auto simp: records_def add_transaction_def chained_def execute_cost_is_product)
next
  case (fed_seal s now miner s' r)
  from fed_seal.hyps(1) have ne: "chain s \<noteq> []"
    using reachable_linked[OF contract_fed_reachable] by (auto simp: linked_def)
  show ?case
  proof (cases "pending_transactions s = []")
    case True
    with fed_seal.hyps(2) have "s' = s" by (simp add: mine_pending_transactions_def)
    with fed_seal.IH show ?thesis by simp
  next
    case False
    from seal_shape[OF fed_seal.hyps(2) ne False] fed_seal.IH show ?thesis
      by (auto simp: records_def reward_is_reward)
  qed
qed

text \<open>
  Claim C4, as amended. Every record that \<^verbatim>\<open>SmartContract.execute\<close> returns has a total
  cost equal to its energy times its unit price. In every state reached from
  construction by submitting such records and sealing, each record of the pending pool
  or of a block either has that property or is a mining-reward record, whose energy and
  unit price are 0 and whose total cost is the mining reward 1. (The claim fails for the
  mining-reward record, and for a record submitted with any other total cost, which
  \<^verbatim>\<open>add_transaction\<close> stores unchecked.)
\<close>

theorem recorded_costs:
  "cost_is_product (fst (execute c)) \<and>
   (contract_fed dg s \<longrightarrow> tx \<in> set (records s) \<longrightarrow> cost_is_product tx \<or> is_reward tx)"
  using contract_fed_inv[of dg s] by (auto simp: execute_cost_is_product)

lemma contract_fed_sample_sealed: "contract_fed sample_digest sample_sealed"
proof -
  have "contract_fed sample_digest sample_fresh"
    by (rule contract_fed.fed_construct[OF sample_fresh_constructed])
  then have "contract_fed sample_digest
      (add_transaction (fst (execute (new_SmartContract ''SC1'' ''A'' ''B'' 10 0.5
         ''2024-01-01T00:00:02''))) sample_fresh)"
    by (rule contract_fed.fed_submit)
  then have "contract_fed sample_digest (add_transaction sample_trade sample_fresh)"
    by (simp add: sample_trade_def)
  then show ?thesis using sample_sealed_mined by (rule contract_fed.fed_seal)
qed

theorem recorded_costs_witness:
  "contract_fed sample_digest sample_sealed \<and>
   records sample_sealed = [reward_transaction ''M'' 1, sample_trade] \<and>
   cost_is_product sample_trade \<and> \<not> is_reward sample_trade \<and>
   is_reward (reward_transaction ''M'' 1)"
proof -
  have r: "records sample_sealed = [reward_transaction ''M'' 1, sample_trade]"
    by (simp add: records_def chained_def sample_sealed_def sample_genesis_def sample_block_def)
  have n: "\<not> is_reward sample_trade"
    by (simp add: is_reward_def sample_trade_def execute_def)
  have m1: "sample_trade \<in> set (records sample_sealed)" using r by simp
  have m2: "reward_transaction ''M'' 1 \<in> set (records sample_sealed)" using r by simp
  from recorded_costs[of _ sample_digest sample_sealed sample_trade]
    contract_fed_sample_sealed m1 n
  have a: "cost_is_product sample_trade" by blast
  from recorded_costs[of _ sample_digest sample_sealed "reward_transaction ''M'' 1"]
    contract_fed_sample_sealed m2 reward_not_product[of "''M''"]
  have b: "is_reward (reward_transaction ''M'' 1)" by blast
  from a b r n contract_fed_sample_sealed show ?thesis by simp
qed

theorem recorded_costs_counterexample:
  "reachable sample_digest sample_sealed \<and>
   reward_transaction ''M'' 1 \<in> set (records sample_sealed) \<and>
   \<not> cost_is_product (reward_transaction ''M'' 1) \<and>
   reachable sample_digest (add_transaction sample_unpriced sample_fresh) \<and>
   sample_unpriced \<in> set (records (add_transaction sample_unpriced sample_fresh)) \<and>
   \<not> cost_is_product sample_unpriced"
proof -
  have "reward_transaction ''M'' 1 \<in> set (records sample_sealed)"
    by (simp add: records_def sample_sealed_def)
  moreover have "sample_unpriced \<in> set (records (add_transaction sample_unpriced sample_fresh))"
    by (simp add: records_def add_transaction_def)
  moreover have "\<not> cost_is_product sample_unpriced"
    by (simp add: cost_is_product_def sample_unpriced_def)
  moreover have "reachable sample_digest (add_transaction sample_unpriced sample_fresh)"
    by (rule reachable.submit[OF reachable_sample_fresh])
  ultimately show ?thesis using reachable_sample_sealed reward_not_product by simp
qed

subsection \<open>Conservation of balances\<close>












end
